theory Spec2Isabelle
  imports Complex_Main "HOL-Library.Sublist" "HOL-Library.AList"
begin

section \<open>Python values, exceptions and library behaviour\<close>

text \<open>
  Python \<open>str\<close> is modelled as \<open>string\<close> (a list of bytes, non-ASCII text in UTF-8).
  Values whose type is only known at run time (the result of \<open>json.loads\<close>, the values of a
  \<open>Dict[str, Any]\<close>) are \<open>pyval\<close>; a dict is an association list in insertion order.
\<close>

datatype pyval =
    PNone
  | PBool bool
  | PInt int
  | PFloat real
  | PStr string
  | PList "pyval list"
  | PDict "(string \<times> pyval) list"

text \<open>
  Exceptions, each with the text that \<open>str(e)\<close> gives. \<open>OtherException\<close> stands for whatever
  subclass of \<open>Exception\<close> the Anthropic client raises.
\<close>

datatype exn =
    ValueError string
  | TypeError string
  | KeyError string
  | ValidationError string
  | OtherException string

fun str_exn :: "exn \<Rightarrow> string" where
  "str_exn (ValueError m) = m"
| "str_exn (TypeError m) = m"
| "str_exn (KeyError k) = [CHR 0x27] @ k @ [CHR 0x27]"
| "str_exn (ValidationError m) = m"
| "str_exn (OtherException m) = m"

definition sum_bind :: "'e + 'a \<Rightarrow> ('a \<Rightarrow> 'e + 'b) \<Rightarrow> 'e + 'b" where
  "sum_bind m f = (case m of Inl e \<Rightarrow> Inl e | Inr x \<Rightarrow> f x)"

text \<open>
  Behaviour of the libraries the code calls, which is not part of the repository:
  \<^item> \<open>loads\<close> is \<open>json.loads\<close>: \<open>Inl m\<close> is a \<open>JSONDecodeError\<close> with message \<open>m\<close>;
  \<^item> \<open>coerce_str\<close> is what pydantic does with a value that is not a \<open>str\<close> given to a \<open>str\<close>
    field (some releases convert numbers, others reject them), \<open>None\<close> is a rejection;
  \<^item> \<open>coerce_dict\<close> is what pydantic does with a value that is not a dict given to a field
    whose type is a model;
  \<^item> \<open>verr\<close> is the text of the \<open>ValidationError\<close> for a list of failing fields.
  A \<open>str\<close> given to a \<open>str\<close> field and a dict given to a model field are always taken as
  they are.
\<close>

record pylib =
  loads :: "string \<Rightarrow> string + pyval"
  coerce_str :: "pyval \<Rightarrow> string option"
  coerce_dict :: "pyval \<Rightarrow> (string \<times> pyval) list option"
  verr :: "string list \<Rightarrow> string"

definition nl :: string where
  "nl = [CHR 0x0A]"

text \<open>\<open>str.strip()\<close>: the ASCII characters for which \<open>str.isspace\<close> holds are removed at both ends.\<close>

definition py_isspace :: "char \<Rightarrow> bool" where
  "py_isspace c = (c \<in> set [CHR 0x09, CHR 0x0A, CHR 0x0B, CHR 0x0C, CHR 0x0D,
                             CHR 0x1C, CHR 0x1D, CHR 0x1E, CHR 0x1F, CHR 0x20])"

definition strip :: "string \<Rightarrow> string" where
  "strip s = rev (dropWhile py_isspace (rev (dropWhile py_isspace s)))"

text \<open>\<open>sep.join(xs)\<close>\<close>

fun join :: "string \<Rightarrow> string list \<Rightarrow> string" where
  "join sep [] = []"
| "join sep [x] = x"
| "join sep (x # y # ys) = x @ sep @ join sep (y # ys)"

text \<open>\<open>field in response_data\<close> for a \<open>str\<close> on the left.\<close>

fun py_contains :: "pyval \<Rightarrow> string \<Rightarrow> exn + bool" where
  "py_contains (PDict kvs) k = Inr (map_of kvs k \<noteq> None)"
| "py_contains (PList xs) k = Inr (PStr k \<in> set xs)"
| "py_contains (PStr s) k = Inr (sublist k s)"
| "py_contains PNone k = Inl (TypeError ''argument of type 'NoneType' is not iterable'')"
| "py_contains (PBool b) k = Inl (TypeError ''argument of type 'bool' is not iterable'')"
| "py_contains (PInt i) k = Inl (TypeError ''argument of type 'int' is not iterable'')"
| "py_contains (PFloat r) k = Inl (TypeError ''argument of type 'float' is not iterable'')"

text \<open>\<open>response_data[field]\<close> for a \<open>str\<close> index.\<close>

fun py_getitem :: "pyval \<Rightarrow> string \<Rightarrow> exn + pyval" where
  "py_getitem (PDict kvs) k = (case map_of kvs k of None \<Rightarrow> Inl (KeyError k) | Some v \<Rightarrow> Inr v)"
| "py_getitem (PList xs) k = Inl (TypeError ''list indices must be integers or slices, not str'')"
| "py_getitem (PStr s) k = Inl (TypeError ''string indices must be integers'')"
| "py_getitem PNone k = Inl (TypeError '''NoneType' object is not subscriptable'')"
| "py_getitem (PBool b) k = Inl (TypeError '''bool' object is not subscriptable'')"
| "py_getitem (PInt i) k = Inl (TypeError '''int' object is not subscriptable'')"
| "py_getitem (PFloat r) k = Inl (TypeError '''float' object is not subscriptable'')"

section \<open>schemas.py\<close>

record py_datetime =
  year :: nat
  month :: nat
  day :: nat
  hour :: nat
  minute :: nat
  second :: nat
  microsecond :: nat

record CampaignBrief =
  campaign_id :: string
  company_name :: string
  brand_name :: string
  campaign_type :: string
  objective :: string
  target_audience :: string
  key_message :: string
  brand_voice :: string
  brand_values :: string
  budget :: string
  platforms :: "string list option"
  deadline :: string
  created_date :: string
  additional_notes :: "string option"
  airtable_record_id :: "string option"
  assigned_to :: "string option"
  priority :: "string option"

text \<open>The validator of \<open>brand_voice\<close>: the value is rejected or replaced by its stripped form.\<close>

definition validate_brand_voice :: "string \<Rightarrow> exn + string" where
  "validate_brand_voice v =
     (if length (strip v) < 3 then Inl (ValueError ''Brand voice must be at least 3 characters'')
      else Inr (strip v))"

record EmailCopy =
  subject_line :: string
  body_text :: string

record AgentResponse =
  response_campaign_id :: string
  response_context_id :: "string option"
  strategy_summary :: string
  post_text :: string
  email_copy :: EmailCopy
  image_prompt :: string
  agent_notes :: string
  generated_at :: py_datetime
  confidence_score :: "real option"

text \<open>Validation of one \<open>str\<close> field and of the nested \<open>EmailCopy\<close> model.\<close>

definition str_field :: "pylib \<Rightarrow> pyval \<Rightarrow> string option" where
  "str_field L v = (case v of PStr s \<Rightarrow> Some s | _ \<Rightarrow> coerce_str L v)"

definition EmailCopy_field :: "pylib \<Rightarrow> pyval \<Rightarrow> EmailCopy option" where
  "EmailCopy_field L v =
     (case (case v of PDict kvs \<Rightarrow> Some kvs | _ \<Rightarrow> coerce_dict L v) of
        None \<Rightarrow> None
      | Some kvs \<Rightarrow>
          (case (map_of kvs ''subject_line'', map_of kvs ''body_text'') of
             (Some a, Some b) \<Rightarrow>
               (case (str_field L a, str_field L b) of
                  (Some s, Some t) \<Rightarrow> Some \<lparr>subject_line = s, body_text = t\<rparr>
                | _ \<Rightarrow> None)
           | _ \<Rightarrow> None))"

text \<open>
  \<open>AgentResponse(campaign_id=..., strategy_summary=..., post_text=..., email_copy=...,
  image_prompt=..., agent_notes=..., generated_at=...)\<close>: every field is validated, the
  failing ones are collected into one \<open>ValidationError\<close>; \<open>context_id\<close> and
  \<open>confidence_score\<close> take their default \<open>None\<close>. \<open>campaign_id\<close> and \<open>generated_at\<close> are given
  a \<open>str\<close> and a \<open>datetime\<close> at every call site.
\<close>

definition failing :: "string \<Rightarrow> 'a option \<Rightarrow> string list" where
  "failing name v = (case v of None \<Rightarrow> [name] | Some _ \<Rightarrow> [])"

definition AgentResponse_init ::
  "pylib \<Rightarrow> string \<Rightarrow> pyval \<Rightarrow> pyval \<Rightarrow> pyval \<Rightarrow> pyval \<Rightarrow> pyval \<Rightarrow> py_datetime \<Rightarrow> exn + AgentResponse" where
  "AgentResponse_init L cid ss pt ec ip an now =
     (case (str_field L ss, str_field L pt, EmailCopy_field L ec, str_field L ip, str_field L an) of
        (Some ss', Some pt', Some ec', Some ip', Some an') \<Rightarrow>
          Inr \<lparr>response_campaign_id = cid, response_context_id = None,
               strategy_summary = ss', post_text = pt', email_copy = ec',
               image_prompt = ip', agent_notes = an', generated_at = now,
               confidence_score = None\<rparr>
      | (a, b, c, d, e) \<Rightarrow>
          Inl (ValidationError (verr L
            (failing ''strategy_summary'' a @ failing ''post_text'' b @ failing ''email_copy'' c
             @ failing ''image_prompt'' d @ failing ''agent_notes'' e))))"

section \<open>claude_agent.py\<close>

text \<open>
  The request that \<open>_call_claude_api\<close> sends, and the client: \<open>Inl e\<close> when
  \<open>client.messages.create\<close> or the read of \<open>response.content[0].text\<close> raises \<open>e\<close>,
  \<open>Inr text\<close> otherwise. The sampling temperature is the constant 0.7.
\<close>

record api_request =
  req_model :: string
  req_max_tokens :: int
  req_system :: string
  req_user_content :: string

type_synonym client_handle = "api_request \<Rightarrow> exn + string"

text \<open>The object \<open>self\<close> as \<open>__init__\<close> leaves it; \<open>client\<close> is \<open>None\<close> without an API key.\<close>

record CampaignAgent =
  client :: "client_handle option"
  agent_role :: string
  model :: string
  max_tokens :: int
  system_prompt :: string

definition build_user_message :: "CampaignBrief \<Rightarrow> string" where
  "build_user_message brief =
     strip (nl @ ''CAMPAIGN BRIEF ANALYSIS REQUEST'' @ nl
       @ nl
       @ ''Campaign ID: '' @ campaign_id brief @ nl
       @ ''Company: '' @ company_name brief @ nl
       @ ''Brand: '' @ brand_name brief @ nl
       @ ''Campaign Type: '' @ campaign_type brief @ nl
       @ nl
       @ ''CAMPAIGN DETAILS:'' @ nl
       @ ''Objective: '' @ objective brief @ nl
       @ ''Target Audience: '' @ target_audience brief @ nl
       @ ''Key Message: '' @ key_message brief @ nl
       @ nl
       @ ''BRAND GUIDELINES:'' @ nl
       @ ''Brand Voice: '' @ brand_voice brief @ nl
       @ ''Brand Values: '' @ brand_values brief @ nl
       @ nl
       @ ''DELIVERABLES NEEDED:'' @ nl
       @ ''- Strategy Summary'' @ nl
       @ ''- Social Media Post'' @ nl
       @ ''- Email Campaign Copy'' @ nl
       @ ''- Image Generation Prompt'' @ nl
       @ nl
       @ ''CONSTRAINTS:'' @ nl
       @ ''Budget: '' @ budget brief @ nl
       @ ''Timeline: Campaign created '' @ created_date brief @ '', deadline '' @ deadline brief @ nl
       @ ''Platform Focus: ''
       @ (case platforms brief of
            None \<Rightarrow> ''Multi-platform''
          | Some ps \<Rightarrow> if ps = [] then ''Multi-platform'' else join '', '' ps) @ nl
       @ nl
       @ ''ADDITIONAL CONTEXT:'' @ nl
       @ (case additional_notes brief of
            None \<Rightarrow> ''No additional notes provided''
          | Some n \<Rightarrow> if n = [] then ''No additional notes provided'' else n) @ nl
       @ nl
       @ ''Please analyze this brief and generate comprehensive marketing assets following the specified JSON format.'' @ nl)"

definition call_claude_api :: "CampaignAgent \<Rightarrow> client_handle \<Rightarrow> string \<Rightarrow> exn + string" where
  "call_claude_api self c user_message =
     c \<lparr>req_model = model self, req_max_tokens = max_tokens self,
        req_system = system_prompt self, req_user_content = user_message\<rparr>"

definition required_fields :: "string list" where
  "required_fields = [''strategy_summary'', ''post_text'', ''email_copy'', ''image_prompt'', ''agent_notes'']"

text \<open>The loop over \<open>required_fields\<close>: it stops at the first field that is not in the data.\<close>

fun check_required :: "pyval \<Rightarrow> string list \<Rightarrow> exn + unit" where
  "check_required response_data [] = Inr ()"
| "check_required response_data (field # rest) =
     (case py_contains response_data field of
        Inl e \<Rightarrow> Inl e
      | Inr present \<Rightarrow>
          if \<not> present then Inl (ValueError (''Missing required field: '' @ field))
          else check_required response_data rest)"

text \<open>
  \<open>_parse_claude_response\<close>. A \<open>JSONDecodeError\<close> is replaced by a \<open>ValueError\<close> with a fixed
  message (the raw response goes to the logger only); every other exception is raised again
  as it is.
\<close>

definition parse_claude_response ::
  "pylib \<Rightarrow> py_datetime \<Rightarrow> string \<Rightarrow> CampaignBrief \<Rightarrow> exn + AgentResponse" where
  "parse_claude_response L now claude_response brief =
     (case loads L (strip claude_response) of
        Inl m \<Rightarrow> Inl (ValueError ''Claude response was not valid JSON'')
      | Inr response_data \<Rightarrow>
          sum_bind (check_required response_data required_fields) (\<lambda>_.
          sum_bind (py_getitem response_data ''strategy_summary'') (\<lambda>ss.
          sum_bind (py_getitem response_data ''post_text'') (\<lambda>pt.
          sum_bind (py_getitem response_data ''email_copy'') (\<lambda>ec.
          sum_bind (py_getitem response_data ''image_prompt'') (\<lambda>ip.
          sum_bind (py_getitem response_data ''agent_notes'') (\<lambda>an.
          AgentResponse_init L (campaign_id brief) ss pt ec ip an now)))))))"

definition rocket :: string where
  "rocket = [CHR 0xF0, CHR 0x9F, CHR 0x9A, CHR 0x80]"

definition generate_mock_response :: "pylib \<Rightarrow> py_datetime \<Rightarrow> CampaignBrief \<Rightarrow> exn + AgentResponse" where
  "generate_mock_response L now brief =
     AgentResponse_init L (campaign_id brief)
       (PStr (''Mock strategy for '' @ company_name brief @ '''s '' @ campaign_type brief
          @ '' campaign. This is a placeholder response generated without calling Claude API. The strategy focuses on ''
          @ target_audience brief @ '' with emphasis on '' @ key_message brief @ ''.''))
       (PStr (rocket @ '' Exciting news from '' @ company_name brief @ ''! '' @ key_message brief
          @ '' Perfect for '' @ target_audience brief @ ''. #Innovation #MockPost''))
       (PDict [(''subject_line'', PStr (''Don't Miss This: '' @ key_message brief)),
               (''body_text'', PStr (''Dear Valued Customer,'' @ nl @ nl @ key_message brief @ nl @ nl
                  @ ''This mock email copy is generated for '' @ company_name brief @ '''s ''
                  @ campaign_type brief @ '' campaign.'' @ nl @ nl @ ''Best regards,'' @ nl
                  @ ''The '' @ company_name brief @ '' Team''))])
       (PStr (''Professional marketing image for '' @ company_name brief @ '', showing ''
          @ key_message brief @ '', style: modern and clean, colors: brand colors, mood: ''
          @ brand_voice brief @ '', target audience: '' @ target_audience brief))
       (PStr (''MOCK RESPONSE: This is a placeholder response for testing. In production, this would contain Claude's strategic insights about the ''
          @ campaign_type brief @ '' campaign for '' @ company_name brief @ ''.''))
       now"

definition generate_fallback_response ::
  "pylib \<Rightarrow> py_datetime \<Rightarrow> CampaignBrief \<Rightarrow> string \<Rightarrow> exn + AgentResponse" where
  "generate_fallback_response L now brief error_message =
     AgentResponse_init L (campaign_id brief)
       (PStr (''Error processing campaign brief. The agent encountered an issue but has generated fallback content for ''
          @ company_name brief @ '''s '' @ campaign_type brief @ '' campaign.''))
       (PStr (''Updates coming soon from '' @ company_name brief @ ''! Stay tuned. #'' @ company_name brief))
       (PDict [(''subject_line'', PStr (''Important Update from '' @ company_name brief)),
               (''body_text'', PStr (''Hello,'' @ nl @ nl
                  @ ''We're working on something exciting and will share more details soon.'' @ nl @ nl
                  @ ''Thank you for your patience.'' @ nl @ nl @ company_name brief @ '' Team''))])
       (PStr (''Simple, professional image for '' @ company_name brief @ '', clean design, brand colors''))
       (PStr (''FALLBACK RESPONSE: Agent error - '' @ error_message @ ''. Manual review required.''))
       now"

text \<open>
  \<open>process_campaign_brief\<close>: the body of the \<open>try\<close>, then the handler of \<open>except Exception\<close>.
  \<open>_log_interaction\<close> appends to the audit file inside its own \<open>try\<close> and returns nothing, so
  it adds no branch. \<open>now\<close> is the reading of the clock that ends up in \<open>generated_at\<close>.
\<close>

definition process_try_body ::
  "pylib \<Rightarrow> CampaignAgent \<Rightarrow> py_datetime \<Rightarrow> CampaignBrief \<Rightarrow> exn + AgentResponse" where
  "process_try_body L self now brief =
     (let user_message = build_user_message brief in
      case client self of
        None \<Rightarrow> generate_mock_response L now brief
      | Some c \<Rightarrow>
          sum_bind (call_claude_api self c user_message) (\<lambda>response.
          parse_claude_response L now response brief))"

definition process_campaign_brief ::
  "pylib \<Rightarrow> CampaignAgent \<Rightarrow> py_datetime \<Rightarrow> CampaignBrief \<Rightarrow> exn + AgentResponse" where
  "process_campaign_brief L self now brief =
     (case process_try_body L self now brief of
        Inr agent_response \<Rightarrow> Inr agent_response
      | Inl e \<Rightarrow> generate_fallback_response L now brief (str_exn e))"

section \<open>schemas.py: the memory store\<close>

record MemoryContext =
  context_id :: string
  context_agent_role :: string
  input_data :: "(string \<times> pyval) list"
  conversation_history :: "(string \<times> pyval) list list"
  output_memory :: "(string \<times> pyval) list"
  reasoning_log :: "string list"
  status :: string
  created_at :: py_datetime
  updated_at :: py_datetime
  context_assigned_to :: "string option"
  reviewed_by :: "string option"
  approval_notes :: "string option"

definition allowed_statuses :: "string list" where
  "allowed_statuses = [''draft'', ''in_review'', ''approved'', ''published'', ''archived'']"

text \<open>The validator of \<open>MemoryContext.status\<close>, run when a context is constructed.\<close>

definition validate_status :: "string \<Rightarrow> exn + string" where
  "validate_status v =
     (if v \<notin> set allowed_statuses
      then Inl (ValueError ''Status must be one of: ['draft', 'in_review', 'approved', 'published', 'archived']'')
      else Inr v)"

text \<open>
  \<open>AgentMemoryStore\<close>: \<open>self.contexts\<close> is a dict, kept as an association list in insertion
  order. \<open>AList.update\<close> overwrites the value of a key that is present, where it stands, and
  appends a key that is not, as assignment to a dict entry does.
\<close>

record AgentMemoryStore =
  contexts :: "(string \<times> MemoryContext) list"

definition store_context :: "AgentMemoryStore \<Rightarrow> string \<Rightarrow> MemoryContext \<Rightarrow> AgentMemoryStore \<times> bool" where
  "store_context self cid context = (self\<lparr>contexts := AList.update cid context (contexts self)\<rparr>, True)"

definition get_context :: "AgentMemoryStore \<Rightarrow> string \<Rightarrow> MemoryContext option" where
  "get_context self cid = map_of (contexts self) cid"

text \<open>
  Modelled from the spec: the body of \<open>AgentMemoryStore.list_contexts\<close> is missing from the
  source (the file stops inside its signature, \<open>def list_contexts(self, limit: int =\<close>).
  The spec: ``\<open>list(limit)\<close> gives an ordered sequence of contexts, most-recently-stored-first
  or insertion order, truncated to \<open>limit\<close>''. Insertion order is taken here, and a limit
  below zero leaves nothing.
\<close>

definition list_contexts :: "AgentMemoryStore \<Rightarrow> int \<Rightarrow> MemoryContext list" where
  "list_contexts self limit = take (nat limit) (map snd (contexts self))"

text \<open>
  Modelled from the spec: \<open>AgentMemoryStore.update_status\<close> is missing from the source.
  The spec: ``\<open>update_status(id, newStatus)\<close> gives a bool: fails (returns false) if id
  absent; otherwise overwrites status field only''.
\<close>

definition update_status :: "AgentMemoryStore \<Rightarrow> string \<Rightarrow> string \<Rightarrow> AgentMemoryStore \<times> bool" where
  "update_status self cid new_status =
     (case map_of (contexts self) cid of
        None \<Rightarrow> (self, False)
      | Some context \<Rightarrow>
          (self\<lparr>contexts := AList.update cid (context\<lparr>status := new_status\<rparr>) (contexts self)\<rparr>, True))"

text \<open>
  Modelled from the spec: the class \<open>MockBriefRequest\<close> is missing from the source. The
  spec gives its body as \<open>{campaign_type, company_name?}\<close>.
\<close>

record MockBriefRequest =
  request_campaign_type :: string
  request_company_name :: "string option"

section \<open>Dates\<close>

text \<open>Decimal digits of a number, and \<open>%0wd\<close>.\<close>

definition digit :: "nat \<Rightarrow> char" where
  "digit n = ''0123456789'' ! (n mod 10)"

fun dec :: "nat \<Rightarrow> string" where
  "dec n = (if n < 10 then [digit n] else dec (n div 10) @ [digit (n mod 10)])"

declare dec.simps [simp del]

definition zpad :: "nat \<Rightarrow> nat \<Rightarrow> string" where
  "zpad w n = replicate (w - length (dec n)) (CHR ''0'') @ dec n"

text \<open>\<open>datetime.isoformat()\<close> and \<open>datetime.strftime('%Y%m%d_%H%M%S')\<close>, for years from 1000 on.\<close>

definition isoformat :: "py_datetime \<Rightarrow> string" where
  "isoformat d =
     zpad 4 (year d) @ ''-'' @ zpad 2 (month d) @ ''-'' @ zpad 2 (day d) @ ''T''
     @ zpad 2 (hour d) @ '':'' @ zpad 2 (minute d) @ '':'' @ zpad 2 (second d)
     @ (if microsecond d = 0 then [] else ''.'' @ zpad 6 (microsecond d))"

definition strftime_stamp :: "py_datetime \<Rightarrow> string" where
  "strftime_stamp d =
     zpad 4 (year d) @ zpad 2 (month d) @ zpad 2 (day d) @ ''_''
     @ zpad 2 (hour d) @ zpad 2 (minute d) @ zpad 2 (second d)"

definition is_leap :: "nat \<Rightarrow> bool" where
  "is_leap y = (if y mod 400 = 0 then True else if y mod 100 = 0 then False else y mod 4 = 0)"

definition days_in_month :: "nat \<Rightarrow> nat \<Rightarrow> nat" where
  "days_in_month y m =
     (if m = 2 then (if is_leap y then 29 else 28)
      else if m \<in> {4, 6, 9, 11} then 30 else 31)"

text \<open>
  \<open>dt.replace(day=d)\<close>: the new date is checked, and a day that the month does not have is a
  \<open>ValueError\<close> (the message is the one of CPython's C implementation).
\<close>

definition replace_day :: "py_datetime \<Rightarrow> nat \<Rightarrow> exn + py_datetime" where
  "replace_day dt d =
     (if 1 \<le> d \<and> d \<le> days_in_month (year dt) (month dt) then Inr (dt\<lparr>day := d\<rparr>)
      else Inl (ValueError ''day is out of range for month''))"

text \<open>
  The spec's ``now + 14 days'' with calendar-safe date addition, for comparison with what
  \<open>create_mock_brief\<close> computes: the date moves one calendar day at a time.
\<close>

definition next_day :: "py_datetime \<Rightarrow> py_datetime" where
  "next_day dt =
     (if day dt < days_in_month (year dt) (month dt) then dt\<lparr>day := day dt + 1\<rparr>
      else if month dt < 12 then dt\<lparr>month := month dt + 1, day := 1\<rparr>
      else dt\<lparr>year := year dt + 1, month := 1, day := 1\<rparr>)"

fun spec_add_days :: "py_datetime \<Rightarrow> nat \<Rightarrow> py_datetime" where
  "spec_add_days dt 0 = dt"
| "spec_add_days dt (Suc n) = spec_add_days (next_day dt) n"

section \<open>main\_app.py\<close>

datatype http_exception = HTTPException (status_code: nat) (detail: string)

text \<open>
  \<open>create_mock_brief\<close>. \<open>mock_data\<close> is the outcome of opening and decoding
  \<open>mock_data.json\<close>, an object of templates keyed by campaign type. The clock is read four
  times: for the identifier, for \<open>created_date\<close>, for the datetime that \<open>replace\<close> is called
  on, and for the day that is added to.
\<close>

record mock_brief_response =
  mock_status :: string
  mock_brief :: "(string \<times> pyval) list"

definition mock_brief_body ::
  "exn + (string \<times> (string \<times> pyval) list) list \<Rightarrow> MockBriefRequest \<Rightarrow>
   py_datetime \<Rightarrow> py_datetime \<Rightarrow> py_datetime \<Rightarrow> py_datetime \<Rightarrow> exn + mock_brief_response" where
  "mock_brief_body mock_data request t_id t_created t_recv t_day =
     sum_bind mock_data (\<lambda>mock_templates.
     sum_bind (case map_of mock_templates ''product_launch'' of
                 None \<Rightarrow> Inl (KeyError ''product_launch'') | Some t \<Rightarrow> Inr t) (\<lambda>dflt.
     let template = (case map_of mock_templates (request_campaign_type request) of
                       None \<Rightarrow> dflt | Some t \<Rightarrow> t);
         template = (case request_company_name request of
                       None \<Rightarrow> template
                     | Some n \<Rightarrow>
                         if n = [] then template
                         else AList.update ''brand_name'' (PStr n)
                                (AList.update ''company_name'' (PStr n) template));
         template = AList.update ''campaign_id'' (PStr (''mock_'' @ strftime_stamp t_id)) template;
         template = AList.update ''created_date'' (PStr (isoformat t_created)) template
     in sum_bind (replace_day t_recv (day t_day + 14)) (\<lambda>d.
        Inr \<lparr>mock_status = ''success'',
             mock_brief = AList.update ''deadline'' (PStr (isoformat d)) template\<rparr>)))"

definition create_mock_brief ::
  "exn + (string \<times> (string \<times> pyval) list) list \<Rightarrow> MockBriefRequest \<Rightarrow>
   py_datetime \<Rightarrow> py_datetime \<Rightarrow> py_datetime \<Rightarrow> py_datetime \<Rightarrow> http_exception + mock_brief_response" where
  "create_mock_brief mock_data request t_id t_created t_recv t_day =
     (case mock_brief_body mock_data request t_id t_created t_recv t_day of
        Inl e \<Rightarrow> Inl (HTTPException 500 (''Mock brief creation failed: '' @ str_exn e))
      | Inr r \<Rightarrow> Inr r)"

text \<open>\<open>GET /memory\<close>: \<open>d.get(k)\<close> is \<open>None\<close> for a key that is not there.\<close>

definition dict_get :: "(string \<times> pyval) list \<Rightarrow> string \<Rightarrow> pyval" where
  "dict_get d k = (case map_of d k of None \<Rightarrow> PNone | Some v \<Rightarrow> v)"

record campaign_info =
  info_campaign_id :: pyval
  info_company_name :: pyval
  info_campaign_type :: pyval

record context_summary =
  summary_context_id :: string
  summary_agent_role :: string
  summary_status :: string
  summary_created_at :: string
  summary_campaign_info :: campaign_info

record list_contexts_response =
  total_contexts :: nat
  listed_contexts :: "context_summary list"

definition summary_of :: "MemoryContext \<Rightarrow> context_summary" where
  "summary_of context =
     \<lparr>summary_context_id = context_id context,
      summary_agent_role = context_agent_role context,
      summary_status = status context,
      summary_created_at = isoformat (created_at context),
      summary_campaign_info =
        \<lparr>info_campaign_id = dict_get (input_data context) ''campaign_id'',
         info_company_name = dict_get (input_data context) ''company_name'',
         info_campaign_type = dict_get (input_data context) ''campaign_type''\<rparr>\<rparr>"

definition list_contexts_endpoint :: "AgentMemoryStore \<Rightarrow> int \<Rightarrow> list_contexts_response" where
  "list_contexts_endpoint memory_store limit =
     (let contexts = list_contexts memory_store limit;
          summaries = map summary_of contexts
      in \<lparr>total_contexts = length summaries, listed_contexts = summaries\<rparr>)"

text \<open>\<open>PUT /memory/{context_id}/status\<close>: the outcome and the store afterwards.\<close>

definition valid_statuses :: "string list" where
  "valid_statuses = [''draft'', ''in_review'', ''approved'', ''published'']"

record status_update_response =
  update_result :: string
  update_context_id :: string
  update_new_status :: string

definition update_context_status ::
  "AgentMemoryStore \<Rightarrow> string \<Rightarrow> string \<Rightarrow> (http_exception + status_update_response) \<times> AgentMemoryStore" where
  "update_context_status memory_store cid new_status =
     (if new_status \<notin> set valid_statuses
      then (Inl (HTTPException 400
                  ''Invalid status. Must be one of: ['draft', 'in_review', 'approved', 'published']''),
            memory_store)
      else
        (case update_status memory_store cid new_status of
           (memory_store', success) \<Rightarrow>
             if \<not> success then (Inl (HTTPException 404 ''Context not found''), memory_store')
             else (Inr \<lparr>update_result = ''success'', update_context_id = cid,
                        update_new_status = new_status\<rparr>, memory_store')))"

text \<open>
  \<open>GET /agent/stats\<close>. \<open>memory_store.list_contexts()\<close> is called without a limit, so the
  default of the parameter applies; its value is missing from the source and is the
  parameter \<open>default_limit\<close> here. The keys of \<open>campaign_types\<close> are values of a
  \<open>Dict[str, Any]\<close>: a list or a dict is not hashable, and a bool, an int and a float that are
  equal numbers are one key.
\<close>

definition hashable :: "pyval \<Rightarrow> bool" where
  "hashable v = (case v of PList _ \<Rightarrow> False | PDict _ \<Rightarrow> False | _ \<Rightarrow> True)"

definition key_norm :: "pyval \<Rightarrow> pyval" where
  "key_norm v =
     (case v of
        PBool b \<Rightarrow> PInt (if b then 1 else 0)
      | PFloat r \<Rightarrow> if of_int \<lfloor>r\<rfloor> = r then PInt \<lfloor>r\<rfloor> else PFloat r
      | _ \<Rightarrow> v)"

text \<open>\<open>d[k] = d.get(k, 0) + 1\<close> for a dict whose keys are strings, and for one with any keys.\<close>

definition count_str :: "string \<Rightarrow> (string \<times> nat) list \<Rightarrow> (string \<times> nat) list" where
  "count_str k d = AList.update k ((case map_of d k of None \<Rightarrow> 0 | Some c \<Rightarrow> c) + 1) d"

fun count_key :: "pyval \<Rightarrow> (pyval \<times> nat) list \<Rightarrow> (pyval \<times> nat) list" where
  "count_key k [] = [(k, 1)]"
| "count_key k ((k', c) # d) =
     (if key_norm k = key_norm k' then (k', c + 1) # d else (k', c) # count_key k d)"

fun stats_loop ::
  "MemoryContext list \<Rightarrow> (string \<times> nat) list \<Rightarrow> (pyval \<times> nat) list \<Rightarrow>
   exn + (string \<times> nat) list \<times> (pyval \<times> nat) list" where
  "stats_loop [] status_counts campaign_types = Inr (status_counts, campaign_types)"
| "stats_loop (context # rest) status_counts campaign_types =
     (let status_counts = count_str (status context) status_counts;
          campaign_type = (case map_of (input_data context) ''campaign_type'' of
                             None \<Rightarrow> PStr ''unknown'' | Some v \<Rightarrow> v)
      in if \<not> hashable campaign_type then Inl (TypeError ''unhashable type'')
         else stats_loop rest status_counts (count_key campaign_type campaign_types))"

record agent_stats =
  total_campaigns :: nat
  status_breakdown :: "(string \<times> nat) list"
  campaign_types :: "(pyval \<times> nat) list"
  stats_agent_role :: string
  memory_store_health :: string

definition get_agent_stats :: "int \<Rightarrow> AgentMemoryStore \<Rightarrow> exn + agent_stats" where
  "get_agent_stats default_limit memory_store =
     (let contexts = list_contexts memory_store default_limit in
      sum_bind (stats_loop contexts [] []) (\<lambda>(status_counts, types).
        Inr \<lparr>total_campaigns = length contexts,
             status_breakdown = status_counts,
             campaign_types = types,
             stats_agent_role = ''Campaign Manager'',
             memory_store_health = ''operational''\<rparr>))"

section \<open>claude_agent.py: construction of the agent\<close>

definition dq :: string where
  "dq = [CHR 0x22]"

definition build_system_prompt :: string where
  "build_system_prompt =
     ''You are an expert Campaign Manager AI agent. Your role is to analyze campaign briefs and generate comprehensive marketing assets.'' @ nl
     @ nl
     @ ''When given a campaign brief, you must:'' @ nl
     @ nl
     @ ''1. **Analyze the brief thoroughly** - understand the target audience, goals, brand voice, and constraints'' @ nl
     @ ''2. **Generate a strategic summary** - key insights and approach'' @ nl
     @ ''3. **Create a social media post** - engaging, platform-appropriate content'' @ nl
     @ ''4. **Write email copy** - compelling subject line and body text'' @ nl
     @ ''5. **Generate an image prompt** - detailed prompt for visual asset creation'' @ nl
     @ ''6. **Provide agent notes** - your reasoning and recommendations'' @ nl
     @ nl
     @ ''**Output Format Requirements:**'' @ nl
     @ ''Always respond with a valid JSON object containing these exact fields:'' @ nl
     @ ''- strategy_summary: String with 2-3 paragraphs of strategic insights'' @ nl
     @ ''- post_text: String with social media post (include relevant hashtags)'' @ nl
     @ ''- email_copy: Object with '' @ dq @ ''subject_line'' @ dq @ '' and '' @ dq @ ''body_text'' @ dq @ '' fields'' @ nl
     @ ''- image_prompt: String with detailed visual description for image generation'' @ nl
     @ ''- agent_notes: String with your reasoning, recommendations, and next steps'' @ nl
     @ nl
     @ ''**Guidelines:**'' @ nl
     @ ''- Match the brand voice and tone specified in the brief'' @ nl
     @ ''- Consider the target audience demographics and preferences  '' @ nl
     @ ''- Ensure all content aligns with campaign objectives'' @ nl
     @ ''- Be specific and actionable in your recommendations'' @ nl
     @ ''- Keep social posts under 280 characters unless specified otherwise'' @ nl
     @ ''- Make email copy compelling and conversion-focused'' @ nl
     @ ''- Create detailed image prompts that capture brand aesthetics'' @ nl
     @ nl
     @ ''**Response must be valid JSON only - no additional text or formatting.**''"

text \<open>
  \<open>__init__\<close>: \<open>api_key\<close> is the value of \<open>os.getenv("ANTHROPIC_API_KEY")\<close>, \<open>anthropic\<close> is the
  constructor of the client.
\<close>

definition CampaignAgent_init :: "string option \<Rightarrow> (string \<Rightarrow> client_handle) \<Rightarrow> CampaignAgent" where
  "CampaignAgent_init api_key anthropic =
     \<lparr>client = (case api_key of
                  None \<Rightarrow> None
                | Some k \<Rightarrow> if k = [] then None else Some (anthropic k)),
      agent_role = ''Campaign Manager'',
      model = ''claude-3-sonnet-20241022'',
      max_tokens = 2000,
      system_prompt = build_system_prompt\<rparr>"

section \<open>Conditions of the properties, and example values\<close>

text \<open>
  The condition under which the parser has to fail: the text does not decode, or it decodes
  to something that is not an object holding all five required keys.
\<close>

definition complete_object :: "pyval \<Rightarrow> bool" where
  "complete_object v =
     (case v of PDict kvs \<Rightarrow> list_all (\<lambda>k. map_of kvs k \<noteq> None) required_fields | _ \<Rightarrow> False)"

definition invalid_agent_output :: "pylib \<Rightarrow> string \<Rightarrow> bool" where
  "invalid_agent_output L raw =
     (case loads L (strip raw) of Inl _ \<Rightarrow> True | Inr v \<Rightarrow> \<not> complete_object v)"

text \<open>The first required key that an object does not have.\<close>

definition first_missing :: "(string \<times> pyval) list \<Rightarrow> string option" where
  "first_missing kvs = find (\<lambda>k. map_of kvs k = None) required_fields"

text \<open>
  A library for the examples: \<open>example_loads\<close> agrees with \<open>json.loads\<close> on the three texts
  that the examples use (an empty object, a number, and prose that is not JSON), and the
  validation is the strict one.
\<close>

definition example_loads :: "string \<Rightarrow> string + pyval" where
  "example_loads s =
     (if s = ''{}'' then Inr (PDict [])
      else if s = ''42'' then Inr (PInt 42)
      else Inl ''Expecting value: line 1 column 1 (char 0)'')"

definition example_lib :: pylib where
  "example_lib =
     \<lparr>loads = example_loads,
      coerce_str = (\<lambda>v. None),
      coerce_dict = (\<lambda>v. None),
      verr = (\<lambda>names. ''validation errors for AgentResponse: '' @ join '', '' names)\<rparr>"

text \<open>A client that answers every request with the same text, and one that always raises.\<close>

definition answering :: "string \<Rightarrow> string \<Rightarrow> client_handle" where
  "answering text api_key request = Inr text"

definition raising :: "string \<Rightarrow> string \<Rightarrow> client_handle" where
  "raising message api_key request = Inl (OtherException message)"

text \<open>The example of \<open>CampaignBrief.Config\<close>.\<close>

definition example_brief :: CampaignBrief where
  "example_brief =
     \<lparr>campaign_id = ''CAMP_2024_001'',
      company_name = ''TechStart Inc'',
      brand_name = ''TechStart'',
      campaign_type = ''product_launch'',
      objective = ''Launch new SaaS product to tech professionals'',
      target_audience = ''Software developers and tech leads aged 25-45'',
      key_message = ''Revolutionary development tools that save 50% of coding time'',
      brand_voice = ''Professional yet approachable, technical but not jargony'',
      brand_values = ''Innovation, efficiency, developer-first mindset'',
      budget = ''$50,000 - $75,000'',
      platforms = Some [''LinkedIn'', ''Twitter'', ''Email'', ''Developer blogs''],
      deadline = ''2024-12-15T23:59:59Z'',
      created_date = ''2024-11-01T10:00:00Z'',
      additional_notes = Some ''Focus on developer pain points and time-saving benefits'',
      airtable_record_id = None,
      assigned_to = None,
      priority = Some ''medium''\<rparr>"

definition at_time :: "nat \<Rightarrow> nat \<Rightarrow> nat \<Rightarrow> nat \<Rightarrow> nat \<Rightarrow> nat \<Rightarrow> py_datetime" where
  "at_time y mo d h mi s =
     \<lparr>year = y, month = mo, day = d, hour = h, minute = mi, second = s, microsecond = 0\<rparr>"

text \<open>The example of \<open>MemoryContext.Config\<close>, and stores that hold copies of it.\<close>

definition example_context :: MemoryContext where
  "example_context =
     \<lparr>context_id = ''campaign_CAMP_2024_001_20241101_140500'',
      context_agent_role = ''Campaign Manager'',
      input_data = [(''campaign_id'', PStr ''CAMP_2024_001''), (''company_name'', PStr ''TechStart Inc'')],
      conversation_history =
        [[(''timestamp'', PStr ''2024-11-01T14:05:00Z''), (''action'', PStr ''process_campaign''),
          (''input'', PStr ''campaign_brief''), (''output'', PStr ''marketing_assets'')]],
      output_memory =
        [(''latest_strategy'', PStr ''Strategic summary...''), (''latest_post'', PStr ''Social media post...''),
         (''latest_email'', PStr ''Email copy...''), (''latest_image_prompt'', PStr ''Image prompt...'')],
      reasoning_log =
        [''Analyzed target audience demographics'',
         ''Identified key pain points in developer workflow'',
         ''Optimized messaging for technical audience''],
      status = ''draft'',
      created_at = at_time 2024 11 1 14 5 0,
      updated_at = at_time 2024 11 1 14 5 0,
      context_assigned_to = None,
      reviewed_by = None,
      approval_notes = None\<rparr>"

definition numbered_context :: "nat \<Rightarrow> string \<times> MemoryContext" where
  "numbered_context i = (''ctx_'' @ dec i, example_context\<lparr>context_id := ''ctx_'' @ dec i\<rparr>)"

definition store_of_size :: "nat \<Rightarrow> AgentMemoryStore" where
  "store_of_size n = \<lparr>contexts = map numbered_context [0..<n]\<rparr>"

text \<open>A file of templates with the single key \<open>product_launch\<close>.\<close>

definition example_templates :: "(string \<times> (string \<times> pyval) list) list" where
  "example_templates =
     [(''product_launch'',
       [(''campaign_id'', PStr ''CAMP_2024_001''), (''company_name'', PStr ''TechStart Inc''),
        (''brand_name'', PStr ''TechStart''), (''campaign_type'', PStr ''product_launch'')])]"

definition example_request :: MockBriefRequest where
  "example_request = \<lparr>request_campaign_type = ''product_launch'', request_company_name = None\<rparr>"

section \<open>The three ways to a response\<close>

lemma sum_bind_Inr: "sum_bind m f = Inr r \<Longrightarrow> \<exists>x. m = Inr x \<and> f x = Inr r"
  by (cases m) (simp_all add: sum_bind_def)

lemma AgentResponse_init_campaign_id:
  "AgentResponse_init L cid ss pt ec ip an now = Inr r \<Longrightarrow> response_campaign_id r = cid"
  by (auto simp: AgentResponse_init_def split: option.splits)

text \<open>Values that already have the type of their field always pass the validation.\<close>

lemma AgentResponse_init_native:
  "AgentResponse_init L cid (PStr a) (PStr b)
     (PDict [(''subject_line'', PStr s), (''body_text'', PStr t)]) (PStr c) (PStr d) now =
   Inr \<lparr>response_campaign_id = cid, response_context_id = None,
        strategy_summary = a, post_text = b,
        email_copy = \<lparr>subject_line = s, body_text = t\<rparr>,
        image_prompt = c, agent_notes = d, generated_at = now,
        confidence_score = None\<rparr>"
  by (simp add: AgentResponse_init_def str_field_def EmailCopy_field_def)

lemma parse_claude_response_campaign_id:
  "parse_claude_response L now raw brief = Inr r \<Longrightarrow> response_campaign_id r = campaign_id brief"
  unfolding parse_claude_response_def
  by (auto split: sum.splits dest!: sum_bind_Inr AgentResponse_init_campaign_id)

lemma generate_mock_response_campaign_id:
  "generate_mock_response L now brief = Inr r \<Longrightarrow> response_campaign_id r = campaign_id brief"
  unfolding generate_mock_response_def by (rule AgentResponse_init_campaign_id)

lemma generate_fallback_response_Inr:
  "\<exists>r. generate_fallback_response L now brief msg = Inr r \<and> response_campaign_id r = campaign_id brief"
  unfolding generate_fallback_response_def AgentResponse_init_native by simp

text \<open>
  Claim C1. For every brief (valid or not), every library behaviour, every agent (with or
  without a client, whatever the client answers or raises) and every clock reading,
  \<open>process_campaign_brief\<close> returns a response, and the \<open>campaign_id\<close> of that response is
  the \<open>campaign_id\<close> of the brief. The three strategies are the three branches of the proof:
  the mock response without a client, the parsed response, and the fallback response after
  any exception.
\<close>

theorem process_campaign_brief_campaign_id:
  "\<exists>r. process_campaign_brief L self now brief = Inr r \<and> response_campaign_id r = campaign_id brief"
proof (cases "process_try_body L self now brief")
  case (Inl e)
  then show ?thesis
    using generate_fallback_response_Inr [of L now brief "str_exn e"]
    by (simp add: process_campaign_brief_def)
next
  case (Inr r)
  have "response_campaign_id r = campaign_id brief"
  proof (cases "client self")
    case None
    with Inr show ?thesis
      by (simp add: process_try_body_def generate_mock_response_campaign_id)
  next
    case (Some c)
    with Inr show ?thesis
      by (auto simp: process_try_body_def dest!: sum_bind_Inr parse_claude_response_campaign_id)
  qed
  with Inr show ?thesis by (simp add: process_campaign_brief_def)
qed

lemma generate_fallback_response_eq:
  "generate_fallback_response L now brief error_message =
   Inr \<lparr>response_campaign_id = campaign_id brief, response_context_id = None,
        strategy_summary = ''Error processing campaign brief. The agent encountered an issue but has generated fallback content for ''
          @ company_name brief @ '''s '' @ campaign_type brief @ '' campaign.'',
        post_text = ''Updates coming soon from '' @ company_name brief @ ''! Stay tuned. #'' @ company_name brief,
        email_copy = \<lparr>subject_line = ''Important Update from '' @ company_name brief,
                      body_text = ''Hello,'' @ nl @ nl
                        @ ''We're working on something exciting and will share more details soon.'' @ nl @ nl
                        @ ''Thank you for your patience.'' @ nl @ nl @ company_name brief @ '' Team''\<rparr>,
        image_prompt = ''Simple, professional image for '' @ company_name brief @ '', clean design, brand colors'',
        agent_notes = ''FALLBACK RESPONSE: Agent error - '' @ error_message @ ''. Manual review required.'',
        generated_at = now, confidence_score = None\<rparr>"
  unfolding generate_fallback_response_def AgentResponse_init_native ..

lemma sublist_manual_review:
  "sublist ''Manual review required'' (''FALLBACK RESPONSE: Agent error - '' @ m @ ''. Manual review required.'')"
proof -
  have "''FALLBACK RESPONSE: Agent error - '' @ m @ ''. Manual review required.''
        = (''FALLBACK RESPONSE: Agent error - '' @ m @ ''. '') @ ''Manual review required'' @ ''.''"
    by simp
  then show ?thesis unfolding sublist_def by blast
qed

text \<open>
  Claim C3. For every brief and every error message, \<open>_generate_fallback_response\<close> raises
  nothing: it returns a response, whatever the validation library does with values of the
  wrong type, because it only hands over values of the right type. The response has the
  brief's \<open>campaign_id\<close>, none of its text fields is empty, and its \<open>agent_notes\<close> contains the
  error message as it was given and the words ``Manual review required''.
\<close>

theorem generate_fallback_response_never_raises:
  "\<exists>r. generate_fallback_response L now brief error_message = Inr r
      \<and> response_campaign_id r = campaign_id brief
      \<and> generated_at r = now
      \<and> agent_notes r = ''FALLBACK RESPONSE: Agent error - '' @ error_message @ ''. Manual review required.''
      \<and> sublist error_message (agent_notes r)
      \<and> sublist ''Manual review required'' (agent_notes r)
      \<and> strategy_summary r \<noteq> [] \<and> post_text r \<noteq> []
      \<and> subject_line (email_copy r) \<noteq> [] \<and> body_text (email_copy r) \<noteq> []
      \<and> image_prompt r \<noteq> [] \<and> agent_notes r \<noteq> []"
  unfolding generate_fallback_response_eq
  by (simp del: append.simps add: sublist_manual_review)

lemma generate_mock_response_Inr:
  "\<exists>r. generate_mock_response L t1 brief = Inr r
      \<and> generate_mock_response L t2 brief = Inr (r\<lparr>generated_at := t2\<rparr>)"
  unfolding generate_mock_response_def AgentResponse_init_native by simp

text \<open>
  Claim C4. Without a client, two runs of \<open>process_campaign_brief\<close> on the same brief, at the
  clock readings \<open>t1\<close> and \<open>t2\<close>, both return the mock response, and the second response is
  the first one with \<open>generated_at\<close> set to \<open>t2\<close>: the two agree in every other field.
\<close>

theorem mock_strategy_deterministic:
  assumes "client self = None"
  shows "\<exists>r. process_campaign_brief L self t1 brief = Inr r
           \<and> process_campaign_brief L self t2 brief = Inr (r\<lparr>generated_at := t2\<rparr>)
           \<and> generate_mock_response L t1 brief = Inr r"
  using assms generate_mock_response_Inr [of L t1 brief t2]
  by (auto simp: process_campaign_brief_def process_try_body_def)

text \<open>The agent that \<open>__init__\<close> builds without an API key, on the example brief, seven seconds apart.\<close>

theorem mock_strategy_deterministic_witness:
  "client (CampaignAgent_init None (raising ''unreachable'')) = None
   \<and> (\<exists>r. process_campaign_brief example_lib (CampaignAgent_init None (raising ''unreachable'')) (at_time 2024 11 1 14 5 0) example_brief = Inr r
        \<and> process_campaign_brief example_lib (CampaignAgent_init None (raising ''unreachable'')) (at_time 2024 11 1 14 5 7) example_brief
            = Inr (r\<lparr>generated_at := at_time 2024 11 1 14 5 7\<rparr>)
        \<and> generate_mock_response example_lib (at_time 2024 11 1 14 5 0) example_brief = Inr r)"
proof -
  have h: "client (CampaignAgent_init None (raising ''unreachable'')) = None"
    by (simp add: CampaignAgent_init_def)
  show ?thesis
    using h mock_strategy_deterministic [OF h, of example_lib "at_time 2024 11 1 14 5 0" example_brief "at_time 2024 11 1 14 5 7"]
    by simp
qed

section \<open>Output of the model that cannot be used\<close>

lemma check_required_dict:
  "check_required (PDict kvs) fs =
     (case find (\<lambda>k. map_of kvs k = None) fs of
        None \<Rightarrow> Inr ()
      | Some f \<Rightarrow> Inl (ValueError (''Missing required field: '' @ f)))"
  by (induction fs) auto

lemma find_None_list_all: "find (\<lambda>k. map_of kvs k = None) fs = None \<longleftrightarrow> list_all (\<lambda>k. map_of kvs k \<noteq> None) fs"
  by (induction fs) auto

lemma py_getitem_not_dict:
  "(\<And>kvs. v \<noteq> PDict kvs) \<Longrightarrow> \<exists>e. py_getitem v k = Inl e"
  by (cases v) auto

lemma parse_claude_response_invalid:
  assumes "invalid_agent_output L raw"
  shows "\<exists>e. parse_claude_response L now raw brief = Inl e
           \<and> (case loads L (strip raw) of
                 Inl m \<Rightarrow> e = ValueError ''Claude response was not valid JSON''
               | Inr (PDict kvs) \<Rightarrow>
                   (case first_missing kvs of
                      None \<Rightarrow> False
                    | Some f \<Rightarrow> e = ValueError (''Missing required field: '' @ f))
               | Inr _ \<Rightarrow> True)"
proof (cases "loads L (strip raw)")
  case (Inl m)
  then show ?thesis by (simp add: parse_claude_response_def)
next
  case (Inr v)
  show ?thesis
  proof (cases "\<exists>kvs. v = PDict kvs")
    case True
    then obtain kvs where v: "v = PDict kvs" by blast
    with assms Inr have "\<not> list_all (\<lambda>k. map_of kvs k \<noteq> None) required_fields"
      by (simp add: invalid_agent_output_def complete_object_def)
    then obtain f where f: "find (\<lambda>k. map_of kvs k = None) required_fields = Some f"
      using find_None_list_all [of kvs required_fields] by (cases "find (\<lambda>k. map_of kvs k = None) required_fields") auto
    with Inr v show ?thesis
      by (simp add: parse_claude_response_def check_required_dict first_missing_def sum_bind_def)
  next
    case False
    then have nd: "\<And>kvs. v \<noteq> PDict kvs" by blast
    obtain e' where g: "py_getitem v ''strategy_summary'' = Inl e'"
      using py_getitem_not_dict [OF nd] by blast
    have "\<exists>e. parse_claude_response L now raw brief = Inl e"
      using Inr g unfolding parse_claude_response_def
      by (cases "check_required v required_fields") (simp_all add: sum_bind_def)
    then obtain e where "parse_claude_response L now raw brief = Inl e" by blast
    with Inr nd show ?thesis by (cases v) auto
  qed
qed

lemma generate_fallback_response_notes:
  "\<exists>r. generate_fallback_response L now brief m = Inr r
      \<and> agent_notes r = ''FALLBACK RESPONSE: Agent error - '' @ m @ ''. Manual review required.''"
  unfolding generate_fallback_response_def AgentResponse_init_native by simp

text \<open>
  Claim C2, as it is stated, fails: the error that the parser raises does not carry the raw
  text. For a reply in prose the parser raises a \<open>ValueError\<close> whose only content is a fixed
  message; the reply itself is written to the log and is not part of the error.
\<close>

theorem parse_error_without_raw_text_counterexample:
  "invalid_agent_output example_lib ''Here is your campaign plan.''
   \<and> parse_claude_response example_lib (at_time 2024 11 1 14 5 0) ''Here is your campaign plan.'' example_brief
       = Inl (ValueError ''Claude response was not valid JSON'')
   \<and> \<not> sublist ''Here is your campaign plan.'' (str_exn (ValueError ''Claude response was not valid JSON''))"
proof -
  have s: "strip ''Here is your campaign plan.'' = ''Here is your campaign plan.''"
    by (simp add: strip_def py_isspace_def)
  have l: "loads example_lib ''Here is your campaign plan.'' = Inl ''Expecting value: line 1 column 1 (char 0)''"
    by (simp add: example_lib_def example_loads_def)
  have n: "\<not> sublist ''Here is your campaign plan.'' ''Claude response was not valid JSON''"
    by (simp add: sublist_code)
  show ?thesis
    using n by (simp add: invalid_agent_output_def parse_claude_response_def s l)
qed

text \<open>
  Claim C2, amended. Let the client answer with a text that does not decode, or that decodes
  to anything but an object with all five required keys. Then \<open>_parse_claude_response\<close>
  raises an exception \<open>e\<close>: a \<open>ValueError\<close> with the message ``Claude response was not valid
  JSON'' when the text does not decode, a \<open>ValueError\<close> naming the first missing key when an
  object lacks one. \<open>process_campaign_brief\<close> does not raise: it returns the fallback response
  built from \<open>str(e)\<close>, whose \<open>agent_notes\<close> quotes that message.
\<close>

theorem invalid_output_becomes_fallback:
  assumes "client self = Some c"
    and "call_claude_api self c (build_user_message brief) = Inr raw"
    and "invalid_agent_output L raw"
  shows "\<exists>e r. parse_claude_response L now raw brief = Inl e
           \<and> (case loads L (strip raw) of
                 Inl m \<Rightarrow> e = ValueError ''Claude response was not valid JSON''
               | Inr (PDict kvs) \<Rightarrow>
                   (case first_missing kvs of
                      None \<Rightarrow> False
                    | Some f \<Rightarrow> e = ValueError (''Missing required field: '' @ f))
               | Inr _ \<Rightarrow> True)
           \<and> process_campaign_brief L self now brief = Inr r
           \<and> generate_fallback_response L now brief (str_exn e) = Inr r
           \<and> agent_notes r = ''FALLBACK RESPONSE: Agent error - '' @ str_exn e @ ''. Manual review required.''"
proof -
  from parse_claude_response_invalid [OF assms(3), of now brief]
  obtain e where e: "parse_claude_response L now raw brief = Inl e"
    and shape: "(case loads L (strip raw) of
                 Inl m \<Rightarrow> e = ValueError ''Claude response was not valid JSON''
               | Inr (PDict kvs) \<Rightarrow>
                   (case first_missing kvs of
                      None \<Rightarrow> False
                    | Some f \<Rightarrow> e = ValueError (''Missing required field: '' @ f))
               | Inr _ \<Rightarrow> True)"
    by blast
  from generate_fallback_response_notes [of L now brief "str_exn e"]
  obtain r where r: "generate_fallback_response L now brief (str_exn e) = Inr r"
    and an: "agent_notes r = ''FALLBACK RESPONSE: Agent error - '' @ str_exn e @ ''. Manual review required.''"
    by blast
  have "process_try_body L self now brief = Inl e"
    using assms(1,2) e by (simp add: process_try_body_def sum_bind_def)
  then have "process_campaign_brief L self now brief = Inr r"
    using r by (simp add: process_campaign_brief_def)
  with e shape r an show ?thesis by blast
qed

text \<open>An agent whose client answers \<open>{}\<close>: the first required key is reported missing.\<close>

theorem invalid_output_becomes_fallback_witness:
  "client (CampaignAgent_init (Some ''sk-test'') (answering ''{}'')) = Some (answering ''{}'' ''sk-test'')
   \<and> call_claude_api (CampaignAgent_init (Some ''sk-test'') (answering ''{}'')) (answering ''{}'' ''sk-test'')
         (build_user_message example_brief) = Inr ''{}''
   \<and> invalid_agent_output example_lib ''{}''
   \<and> (\<exists>e r. parse_claude_response example_lib (at_time 2024 11 1 14 5 0) ''{}'' example_brief = Inl e
           \<and> e = ValueError ''Missing required field: strategy_summary''
           \<and> process_campaign_brief example_lib (CampaignAgent_init (Some ''sk-test'') (answering ''{}''))
                 (at_time 2024 11 1 14 5 0) example_brief = Inr r
           \<and> generate_fallback_response example_lib (at_time 2024 11 1 14 5 0) example_brief (str_exn e) = Inr r
           \<and> agent_notes r = ''FALLBACK RESPONSE: Agent error - '' @ str_exn e @ ''. Manual review required.'')"
proof -
  let ?self = "CampaignAgent_init (Some ''sk-test'') (answering ''{}'')"
  have h1: "client ?self = Some (answering ''{}'' ''sk-test'')"
    by (simp add: CampaignAgent_init_def)
  have h2: "call_claude_api ?self (answering ''{}'' ''sk-test'') (build_user_message example_brief) = Inr ''{}''"
    by (simp add: call_claude_api_def answering_def)
  have s: "strip ''{}'' = ''{}''"
    by (simp add: strip_def py_isspace_def)
  have l: "loads example_lib ''{}'' = Inr (PDict [])"
    by (simp add: example_lib_def example_loads_def)
  have h3: "invalid_agent_output example_lib ''{}''"
    by (simp add: invalid_agent_output_def s l complete_object_def required_fields_def)
  have fm: "first_missing [] = Some ''strategy_summary''"
    by (simp add: first_missing_def required_fields_def)
  show ?thesis
    using h1 h2 h3 invalid_output_becomes_fallback [OF h1 h2 h3, of "at_time 2024 11 1 14 5 0"]
    by (auto simp: s l fm)
qed

section \<open>The memory store and its endpoints\<close>

lemma get_context_update:
  "map_of (AList.update cid c al) k = (if k = cid then Some c else map_of al k)"
  by (simp add: update_conv')

lemma map_fst_update_present:
  "map_of al cid = Some c \<Longrightarrow> map fst (AList.update cid c' al) = map fst al"
  by (induction al) (auto split: if_splits)

lemma store_of_size_2:
  "contexts (store_of_size 2) =
     [(''ctx_0'', example_context\<lparr>context_id := ''ctx_0''\<rparr>),
      (''ctx_1'', example_context\<lparr>context_id := ''ctx_1''\<rparr>)]"
  by (simp add: store_of_size_def numbered_context_def upt_rec dec.simps digit_def)

text \<open>
  Claim C8. For every store, identifier and context, \<open>store_context\<close> reports success, and
  \<open>get_context\<close> with the same identifier on the store that results returns the context that
  was stored, equal in all fields; every other identifier returns what it returned before.
\<close>

theorem store_then_get_roundtrip:
  "get_context (fst (store_context self cid context)) cid = Some context
   \<and> snd (store_context self cid context) = True
   \<and> get_context (fst (store_context self cid context)) k
       = (if k = cid then Some context else get_context self k)"
proof -
  have stored: "contexts (fst (store_context self cid context)) = AList.update cid context (contexts self)"
    by (simp add: store_context_def)
  have fetch: "get_context (fst (store_context self cid context)) k
       = (if k = cid then Some context else get_context self k)" for k
    unfolding get_context_def stored by (rule get_context_update)
  have "snd (store_context self cid context) = True"
    by (simp add: store_context_def)
  with fetch [of cid] fetch [of k] show ?thesis by simp
qed

text \<open>
  Claim C7. \<open>update_status\<close> on an identifier that is absent returns false and leaves the
  store as it is. On an identifier that holds \<open>context\<close> it returns true, and the store then
  holds, under that identifier, \<open>context\<close> with the new status and nothing else changed
  (\<open>updated_at\<close> and \<open>created_at\<close> among the rest); every other identifier holds what it held,
  and the order of the identifiers is the same. For a status that the endpoint accepts, the
  endpoint reports success and leaves exactly that store.
\<close>

theorem update_status_frame:
  "(get_context self cid = None \<longrightarrow> update_status self cid new_status = (self, False))
   \<and> (get_context self cid = Some context \<longrightarrow>
        (\<exists>self' context'.
           update_status self cid new_status = (self', True)
         \<and> get_context self' cid = Some context'
         \<and> context' = context\<lparr>status := new_status\<rparr>
         \<and> status context' = new_status
         \<and> updated_at context' = updated_at context
         \<and> created_at context' = created_at context
         \<and> (\<forall>k. k \<noteq> cid \<longrightarrow> get_context self' k = get_context self k)
         \<and> map fst (contexts self') = map fst (contexts self)
         \<and> (new_status \<in> set valid_statuses \<longrightarrow>
              update_context_status self cid new_status =
                (Inr \<lparr>update_result = ''success'', update_context_id = cid,
                      update_new_status = new_status\<rparr>, self'))))"
  by (auto simp: update_status_def get_context_def get_context_update map_fst_update_present
      update_context_status_def)

text \<open>A store of two contexts: an absent identifier, and \<open>ctx_1\<close> moved from draft to approved.\<close>

theorem update_status_frame_witness:
  "get_context (store_of_size 2) ''ctx_7'' = None
   \<and> update_status (store_of_size 2) ''ctx_7'' ''approved'' = (store_of_size 2, False)
   \<and> get_context (store_of_size 2) ''ctx_1'' = Some (example_context\<lparr>context_id := ''ctx_1''\<rparr>)
   \<and> ''approved'' \<in> set valid_statuses
   \<and> (\<exists>self'.
         update_status (store_of_size 2) ''ctx_1'' ''approved'' = (self', True)
       \<and> get_context self' ''ctx_1''
           = Some (example_context\<lparr>context_id := ''ctx_1'', status := ''approved''\<rparr>)
       \<and> get_context self' ''ctx_0'' = get_context (store_of_size 2) ''ctx_0''
       \<and> update_context_status (store_of_size 2) ''ctx_1'' ''approved'' =
            (Inr \<lparr>update_result = ''success'', update_context_id = ''ctx_1'',
                  update_new_status = ''approved''\<rparr>, self'))"
proof -
  have c: "get_context (store_of_size 2) ''ctx_7'' = None"
    by (simp add: get_context_def store_of_size_2)
  have d: "get_context (store_of_size 2) ''ctx_1'' = Some (example_context\<lparr>context_id := ''ctx_1''\<rparr>)"
    by (simp add: get_context_def store_of_size_2)
  have v: "''approved'' \<in> set valid_statuses"
    by (simp add: valid_statuses_def)
  show ?thesis
    using c d v
      update_status_frame [of "store_of_size 2" "''ctx_7''" "''approved''"]
      update_status_frame [of "store_of_size 2" "''ctx_1''" "''approved''" "example_context\<lparr>context_id := ''ctx_1''\<rparr>"]
    by auto
qed

text \<open>
  Claim C6. \<open>update_context_status\<close> answers a status outside draft, in\_review, approved,
  published with the error 400 and returns the store it was given, so what
  \<open>get_context\<close> returns for the identifier is what it returned before. For one of the four
  values it answers 404 when the identifier is absent and reports success when it is
  present. The value archived passes the validator of \<open>MemoryContext\<close> and is answered with
  400 by the endpoint.
\<close>

theorem update_context_status_codes:
  "(new_status \<notin> set [''draft'', ''in_review'', ''approved'', ''published''] \<longrightarrow>
      update_context_status memory_store cid new_status =
        (Inl (HTTPException 400
           ''Invalid status. Must be one of: ['draft', 'in_review', 'approved', 'published']''),
         memory_store)
      \<and> get_context (snd (update_context_status memory_store cid new_status)) cid
          = get_context memory_store cid)
   \<and> (new_status \<in> set [''draft'', ''in_review'', ''approved'', ''published''] \<longrightarrow>
        (get_context memory_store cid = None \<longrightarrow>
           update_context_status memory_store cid new_status =
             (Inl (HTTPException 404 ''Context not found''), memory_store))
      \<and> (get_context memory_store cid \<noteq> None \<longrightarrow>
           fst (update_context_status memory_store cid new_status) =
             Inr \<lparr>update_result = ''success'', update_context_id = cid,
                  update_new_status = new_status\<rparr>))
   \<and> validate_status ''archived'' = Inr ''archived''
   \<and> update_context_status memory_store cid ''archived'' =
        (Inl (HTTPException 400
           ''Invalid status. Must be one of: ['draft', 'in_review', 'approved', 'published']''),
         memory_store)"
  by (auto simp: update_context_status_def valid_statuses_def update_status_def get_context_def
      validate_status_def allowed_statuses_def)

text \<open>
  A store of two contexts: archived on \<open>ctx_1\<close> (400, the status stays draft), approved on an
  absent identifier (404), approved on \<open>ctx_1\<close> (success).
\<close>

theorem update_context_status_codes_witness:
  "''archived'' \<notin> set [''draft'', ''in_review'', ''approved'', ''published'']
   \<and> update_context_status (store_of_size 2) ''ctx_1'' ''archived'' =
        (Inl (HTTPException 400
           ''Invalid status. Must be one of: ['draft', 'in_review', 'approved', 'published']''),
         store_of_size 2)
   \<and> get_context (snd (update_context_status (store_of_size 2) ''ctx_1'' ''archived'')) ''ctx_1''
        = Some (example_context\<lparr>context_id := ''ctx_1''\<rparr>)
   \<and> status (example_context\<lparr>context_id := ''ctx_1''\<rparr>) = ''draft''
   \<and> ''approved'' \<in> set [''draft'', ''in_review'', ''approved'', ''published'']
   \<and> get_context (store_of_size 2) ''ctx_7'' = None
   \<and> update_context_status (store_of_size 2) ''ctx_7'' ''approved'' =
        (Inl (HTTPException 404 ''Context not found''), store_of_size 2)
   \<and> get_context (store_of_size 2) ''ctx_1'' \<noteq> None
   \<and> fst (update_context_status (store_of_size 2) ''ctx_1'' ''approved'') =
        Inr \<lparr>update_result = ''success'', update_context_id = ''ctx_1'',
             update_new_status = ''approved''\<rparr>"
proof -
  have a: "''archived'' \<notin> set [''draft'', ''in_review'', ''approved'', ''published'']" by simp
  have b: "''approved'' \<in> set [''draft'', ''in_review'', ''approved'', ''published'']" by simp
  have c: "get_context (store_of_size 2) ''ctx_7'' = None"
    by (simp add: get_context_def store_of_size_2)
  have d: "get_context (store_of_size 2) ''ctx_1'' = Some (example_context\<lparr>context_id := ''ctx_1''\<rparr>)"
    by (simp add: get_context_def store_of_size_2)
  have e: "status (example_context\<lparr>context_id := ''ctx_1''\<rparr>) = ''draft''"
    by (simp add: example_context_def)
  show ?thesis
    using a b c d e
      update_context_status_codes [of "''archived''" "store_of_size 2" "''ctx_1''"]
      update_context_status_codes [of "''approved''" "store_of_size 2" "''ctx_7''"]
      update_context_status_codes [of "''approved''" "store_of_size 2" "''ctx_1''"]
    by simp
qed

text \<open>
  Claim C10. For every store and every limit, \<open>total_contexts\<close> in the answer of
  \<open>GET /memory\<close> is the number of summaries in that answer, one for each context that
  \<open>list_contexts\<close> returned: the smaller of the limit and the size of the store, not the size
  of the store.
\<close>

theorem list_contexts_total_is_returned_count:
  "total_contexts (list_contexts_endpoint memory_store limit)
     = length (listed_contexts (list_contexts_endpoint memory_store limit))
   \<and> listed_contexts (list_contexts_endpoint memory_store limit)
     = map summary_of (list_contexts memory_store limit)
   \<and> total_contexts (list_contexts_endpoint memory_store limit)
     = min (nat limit) (length (contexts memory_store))"
proof -
  let ?r = "list_contexts_endpoint memory_store limit"
  have summaries: "listed_contexts ?r = map summary_of (list_contexts memory_store limit)"
    by (simp add: list_contexts_endpoint_def Let_def)
  have total: "total_contexts ?r = length (listed_contexts ?r)"
    by (simp add: list_contexts_endpoint_def Let_def)
  have "length (list_contexts memory_store limit) = min (nat limit) (length (contexts memory_store))"
    by (simp add: list_contexts_def min.commute)
  with summaries total show ?thesis by simp
qed

text \<open>A limit of 2 against a store of 5 contexts.\<close>

lemma list_limit_two_of_five:
  "total_contexts (list_contexts_endpoint (store_of_size 5) 2) = 2
   \<and> length (contexts (store_of_size 5)) = 5"
  by (simp add: list_contexts_endpoint_def list_contexts_def Let_def store_of_size_def)

section \<open>Statistics\<close>

lemma count_str_sum: "sum_list (map snd (count_str k d)) = sum_list (map snd d) + 1"
  unfolding count_str_def by (induction d) auto

lemma count_key_sum: "sum_list (map snd (count_key k d)) = sum_list (map snd d) + 1"
  by (induction d) auto

lemma stats_loop_sums:
  "stats_loop cs sc ct = Inr (sc', ct') \<Longrightarrow>
     sum_list (map snd sc') = sum_list (map snd sc) + length cs
   \<and> sum_list (map snd ct') = sum_list (map snd ct) + length cs"
proof (induction cs arbitrary: sc ct)
  case Nil
  then show ?case by simp
next
  case (Cons c cs)
  then show ?case
    by (fastforce simp: Let_def count_str_sum count_key_sum split: if_splits)
qed

lemma store_of_size_contexts: "length (contexts (store_of_size n)) = n"
  by (simp add: store_of_size_def)

text \<open>
  Claim C9. \<open>get_agent_stats\<close> counts the contexts that \<open>list_contexts()\<close> returns under its
  default limit, not the contexts of the store: whenever it returns, \<open>total_campaigns\<close> is the
  smaller of the default limit and the size of the store, and the counts by status and by
  campaign type each sum to that number. With more contexts in the store than the default
  limit, the total is below the number of contexts stored.
\<close>

theorem get_agent_stats_total:
  assumes "get_agent_stats default_limit memory_store = Inr r"
  shows "total_campaigns r = min (nat default_limit) (length (contexts memory_store))
       \<and> sum_list (map snd (status_breakdown r)) = total_campaigns r
       \<and> sum_list (map snd (campaign_types r)) = total_campaigns r"
proof -
  let ?cs = "list_contexts memory_store default_limit"
  from assms obtain sc ct where loop: "stats_loop ?cs [] [] = Inr (sc, ct)"
    and r: "r = \<lparr>total_campaigns = length ?cs, status_breakdown = sc, campaign_types = ct,
                 stats_agent_role = ''Campaign Manager'', memory_store_health = ''operational''\<rparr>"
    by (auto simp: get_agent_stats_def Let_def sum_bind_def split: sum.splits)
  have "length ?cs = min (nat default_limit) (length (contexts memory_store))"
    by (simp add: list_contexts_def min.commute)
  with stats_loop_sums [OF loop] r show ?thesis by simp
qed

text \<open>A default limit of 10 and a store of 11 contexts: the statistics report 10 campaigns.\<close>

theorem get_agent_stats_total_witness:
  "get_agent_stats 10 (store_of_size 11) =
     Inr \<lparr>total_campaigns = 10, status_breakdown = [(''draft'', 10)],
          campaign_types = [(PStr ''unknown'', 10)],
          stats_agent_role = ''Campaign Manager'', memory_store_health = ''operational''\<rparr>
   \<and> length (contexts (store_of_size 11)) = 11
   \<and> total_campaigns \<lparr>total_campaigns = 10, status_breakdown = [(''draft'', 10)],
          campaign_types = [(PStr ''unknown'', 10)],
          stats_agent_role = ''Campaign Manager'', memory_store_health = ''operational''\<rparr>
       = min (nat 10) (length (contexts (store_of_size 11)))"
proof -
  have h: "get_agent_stats 10 (store_of_size 11) =
     Inr \<lparr>total_campaigns = 10, status_breakdown = [(''draft'', 10)],
          campaign_types = [(PStr ''unknown'', 10)],
          stats_agent_role = ''Campaign Manager'', memory_store_health = ''operational''\<rparr>"
    by (simp add: get_agent_stats_def list_contexts_def store_of_size_def numbered_context_def
        upt_rec example_context_def count_str_def hashable_def key_norm_def sum_bind_def)
  show ?thesis
    using h get_agent_stats_total [OF h] by (simp add: store_of_size_contexts)
qed

section \<open>The deadline of a mock brief\<close>

text \<open>
  Within the month, setting the day to the day plus 14 is the date 14 days later; past the
  end of the month it is an error.
\<close>

lemma spec_add_days_same_month:
  "day dt + n \<le> days_in_month (year dt) (month dt) \<Longrightarrow> spec_add_days dt n = dt\<lparr>day := day dt + n\<rparr>"
proof (induction n arbitrary: dt)
  case 0
  then show ?case by simp
next
  case (Suc n)
  then have "next_day dt = dt\<lparr>day := day dt + 1\<rparr>"
    by (simp add: next_day_def)
  with Suc show ?case by simp
qed

lemma replace_day_plus_14:
  "replace_day now (day now + 14) =
     (if day now + 14 \<le> days_in_month (year now) (month now) then Inr (spec_add_days now 14)
      else Inl (ValueError ''day is out of range for month''))"
  by (simp add: replace_day_def spec_add_days_same_month)

text \<open>
  Claim C5. On 18 January 2024 the date 14 days later is 1 February 2024, and
  \<open>create_mock_brief\<close> does not compute it: \<open>replace(day=32)\<close> raises, and the request is
  answered with the error 500.
\<close>

theorem create_mock_brief_day_18:
  "create_mock_brief (Inr example_templates) example_request
     (at_time 2024 1 18 9 30 0) (at_time 2024 1 18 9 30 0) (at_time 2024 1 18 9 30 0) (at_time 2024 1 18 9 30 0)
     = Inl (HTTPException 500 ''Mock brief creation failed: day is out of range for month'')
   \<and> spec_add_days (at_time 2024 1 18 9 30 0) 14 = at_time 2024 2 1 9 30 0"
proof -
  have "spec_add_days (at_time 2024 1 18 9 30 0) 14 = at_time 2024 2 1 9 30 0"
    by (simp add: eval_nat_numeral at_time_def next_day_def days_in_month_def is_leap_def)
  moreover have "replace_day (at_time 2024 1 18 9 30 0) (day (at_time 2024 1 18 9 30 0) + 14)
      = Inl (ValueError ''day is out of range for month'')"
    by (simp add: replace_day_def at_time_def days_in_month_def)
  ultimately show ?thesis
    by (simp add: create_mock_brief_def mock_brief_body_def sum_bind_def example_templates_def
        example_request_def Let_def)
qed

section \<open>Further facts about the model\<close>

text \<open>
  An exception of the client ends in the fallback response for its message; a reply that is
  a JSON number ends in a \<open>TypeError\<close>; the loop of the statistics returns whenever every
  campaign type is hashable; on the 10th of a month the mock brief gets its deadline; a brand
  voice of two characters is rejected and one of three is accepted.
\<close>

lemma client_raises_fallback:
  assumes "client self = Some c"
    and "call_claude_api self c (build_user_message brief) = Inl e"
  shows "process_campaign_brief L self now brief = generate_fallback_response L now brief (str_exn e)"
  using assms by (simp add: process_campaign_brief_def process_try_body_def sum_bind_def)

lemma parse_number_is_type_error:
  "parse_claude_response example_lib now ''42'' brief
     = Inl (TypeError ''argument of type 'int' is not iterable'')"
proof -
  have "strip ''42'' = ''42''" by (simp add: strip_def py_isspace_def)
  then show ?thesis
    by (simp add: parse_claude_response_def example_lib_def example_loads_def required_fields_def
        sum_bind_def)
qed

lemma stats_loop_total:
  "list_all (\<lambda>c. hashable (case map_of (input_data c) ''campaign_type'' of
                             None \<Rightarrow> PStr ''unknown'' | Some v \<Rightarrow> v)) cs
   \<Longrightarrow> \<exists>res. stats_loop cs sc ct = Inr res"
  by (induction cs arbitrary: sc ct) (auto simp: Let_def)

lemma create_mock_brief_day_10:
  "create_mock_brief (Inr example_templates) example_request
     (at_time 2024 1 10 9 30 0) (at_time 2024 1 10 9 30 0) (at_time 2024 1 10 9 30 0) (at_time 2024 1 10 9 30 0)
     = Inr \<lparr>mock_status = ''success'',
            mock_brief =
              [(''campaign_id'', PStr ''mock_20240110_093000''), (''company_name'', PStr ''TechStart Inc''),
               (''brand_name'', PStr ''TechStart''), (''campaign_type'', PStr ''product_launch''),
               (''created_date'', PStr ''2024-01-10T09:30:00''),
               (''deadline'', PStr ''2024-01-24T09:30:00'')]\<rparr>"
  by (simp add: create_mock_brief_def mock_brief_body_def sum_bind_def example_templates_def
      example_request_def Let_def replace_day_def at_time_def days_in_month_def
      isoformat_def strftime_stamp_def zpad_def dec.simps digit_def)

lemma validate_brand_voice_examples:
  "validate_brand_voice ''ab'' = Inl (ValueError ''Brand voice must be at least 3 characters'')
   \<and> validate_brand_voice ''abc'' = Inr ''abc''"
  by (simp add: validate_brand_voice_def strip_def py_isspace_def)

text \<open>
  Whatever the default limit of \<open>list_contexts\<close> is, a store with one context more than the
  limit gets statistics whose total is the limit.
\<close>

lemma stats_loop_numbered:
  "\<exists>res. stats_loop (take k (map snd (map numbered_context ns))) sc ct = Inr res"
proof (rule stats_loop_total)
  have "hashable (case map_of (input_data c) ''campaign_type'' of None \<Rightarrow> PStr ''unknown'' | Some v \<Rightarrow> v)"
    if "c \<in> set (map snd (map numbered_context ns))" for c
    using that by (auto simp: numbered_context_def example_context_def hashable_def)
  then show "list_all (\<lambda>c. hashable (case map_of (input_data c) ''campaign_type'' of
                             None \<Rightarrow> PStr ''unknown'' | Some v \<Rightarrow> v))
       (take k (map snd (map numbered_context ns)))"
    unfolding list_all_iff using set_take_subset by fastforce
qed

lemma get_agent_stats_one_too_many:
  "\<exists>r. get_agent_stats default_limit (store_of_size (nat default_limit + 1)) = Inr r
      \<and> total_campaigns r = nat default_limit
      \<and> length (contexts (store_of_size (nat default_limit + 1))) = nat default_limit + 1"
proof -
  let ?cs = "list_contexts (store_of_size (nat default_limit + 1)) default_limit"
  have len: "length ?cs = nat default_limit"
    by (simp add: list_contexts_def store_of_size_def)
  obtain sc ct where "stats_loop ?cs [] [] = Inr (sc, ct)"
    using stats_loop_numbered [of "nat default_limit" "[0..<nat default_limit + 1]" "[]" "[]"]
    by (auto simp: list_contexts_def store_of_size_def)
  then have "get_agent_stats default_limit (store_of_size (nat default_limit + 1)) =
     Inr \<lparr>total_campaigns = length ?cs, status_breakdown = sc, campaign_types = ct,
          stats_agent_role = ''Campaign Manager'', memory_store_health = ''operational''\<rparr>"
    by (simp add: get_agent_stats_def Let_def sum_bind_def)
  with len show ?thesis by (simp add: store_of_size_def)
qed

end
